theory Spec2Isabelle
  imports Complex_Main "HOL-Library.Multiset"
begin

section \<open>RiskLens: the front end's data handling\<close>

text \<open>
  The repository's sources are the Next.js front end: the portfolio form, the CSV import
  dialog, the analysis page and the components that render a \<open>RiskOutput\<close>. The
  analytics back end (Django) is not among the sources.

  Conventions of the embedding.
  \<^item> A JavaScript \<open>number\<close> that is a finite value is a rational (\<open>rat\<close>); arithmetic is
    exact, so rounding of IEEE doubles is not modelled. Where the source can produce
    \<open>NaN\<close> or an infinity (a division by zero, \<open>parseFloat\<close>), the result type is
    \<open>jsnum\<close>, which has those values.
  \<^item> A JavaScript array that can have empty slots is a list of options, \<open>None\<close> for an
    empty slot. The \<open>positions\<close> state of the page is such an array: the form's indexed
    write beyond the end leaves empty slots. An array that is a plain list has none.
  \<^item> \<open>null\<close> of a field typed \<open>number\<close> is \<open>None\<close> of a \<open>rat option\<close>.
  \<^item> React state is passed explicitly: a handler takes the state it reads and returns
    the value it hands to the state setter.
\<close>

subsection \<open>lib/types.ts\<close>

datatype asset_class = Equity | Bond | Cash

datatype jsnum = NaN | NegInfinity | PosInfinity | Fin rat

text \<open>
  \<open>PortfolioPosition\<close>: \<open>quantity\<close> is whatever \<open>parseFloat\<close> returned; the optional
  fields are \<open>None\<close> when \<open>undefined\<close>.
\<close>

record PortfolioPosition =
  ticker :: string
  quantity :: jsnum
  asset_class :: asset_class
  avg_price :: "jsnum option"
  purchase_date :: "string option"

text \<open>\<open>CorrelationData\<close>: the ticker list and the list of pairwise entries.\<close>

record CorrelationEntry =
  ticker1 :: string
  ticker2 :: string
  correlation :: rat

record CorrelationData =
  tickers :: "string list"
  correlations :: "CorrelationEntry list"

subsection \<open>Removing a position (portfolio page and PortfolioForm)\<close>


text \<open>
  The form's state variables. The two text fields that share a name with a field of
  \<open>PortfolioPosition\<close> carry the suffix \<open>_text\<close>; \<open>isValid\<close> is
  \<open>validationState.isValid\<close> (\<open>None\<close> for \<open>null\<close>), \<open>editingIndex\<close> is \<open>None\<close> for
  \<open>null\<close>.
\<close>

record form_state =
  ticker_text :: string
  quantity_text :: string
  assetClass :: asset_class
  avgPrice :: string
  purchaseDate :: string
  isValid :: "bool option"
  editingIndex :: "nat option"



subsection \<open>CorrelationHeatmap\<close>

definition getCorrelationColor :: "rat \<Rightarrow> string" where
  "getCorrelationColor c =
     (if c > 7 / 10 then ''bg-red-500''
      else if c > 3 / 10 then ''bg-orange-400''
      else if c > 0 then ''bg-yellow-300''
      else if c > - (3 / 10) then ''bg-blue-300''
      else if c > - (7 / 10) then ''bg-blue-400''
      else ''bg-blue-500'')"

text \<open>The template string \<open>`${ticker1}-${ticker2}`\<close>.\<close>

definition corrKey :: "string \<Rightarrow> string \<Rightarrow> string" where
  "corrKey t1 t2 = t1 @ ''-'' @ t2"

text \<open>
  \<open>corrMap\<close>: the entries are stored in list order, a later entry with the same key
  replacing an earlier one.
\<close>

definition corrMap :: "CorrelationEntry list \<Rightarrow> (string \<rightharpoonup> rat)" where
  "corrMap items =
     foldl (\<lambda>m item. m(corrKey (ticker1 item) (ticker2 item) \<mapsto> correlation item))
       Map.empty items"

text \<open>
  \<open>corrMap.get(key) || 0\<close>: \<open>undefined\<close> (no entry) is falsy, and so is a stored \<open>0\<close>;
  both give \<open>0\<close>.
\<close>

definition cellCorrelation :: "CorrelationData \<Rightarrow> string \<Rightarrow> string \<Rightarrow> rat" where
  "cellCorrelation d t1 t2 =
     (case corrMap (correlations d) (corrKey t1 t2) of
        None \<Rightarrow> 0
      | Some v \<Rightarrow> if v = 0 then 0 else v)"

text \<open>The grid: one row per ticker, one cell per ticker, each with its value and colour.\<close>

definition heatmapCells :: "CorrelationData \<Rightarrow> (rat \<times> string) list list" where
  "heatmapCells d =
     map (\<lambda>t1. map (\<lambda>t2. (cellCorrelation d t1 t2,
                            getCorrelationColor (cellCorrelation d t1 t2))) (tickers d))
       (tickers d)"

subsection \<open>MonteCarloVaR: the histogram of simulated values\<close>

text \<open>
  \<open>MonteCarloVaR\<close> of lib/types.ts. The fields \<open>min\<close>, \<open>max\<close>, \<open>mean\<close> and \<open>std\<close> of
  \<open>distribution\<close> carry the prefix \<open>d_\<close> (\<open>min\<close> and \<open>max\<close> are constants of HOL); the
  percentiles are not read by the histogram and are left out. The values arrive as JSON
  numbers, so they are finite.
\<close>

record Distribution =
  d_mean :: rat
  d_std :: rat
  d_min :: rat
  d_max :: rat

record MonteCarloData =
  mc_var_95 :: rat
  mc_cvar_95 :: rat
  num_simulations :: nat
  confidence_level :: rat
  distribution :: Distribution
  simulations :: "rat list"

text \<open>An element of \<open>bins\<close>: \<open>{ value, count }\<close>.\<close>

record Bin =
  bin_value :: rat
  bin_count :: nat

text \<open>
  Division of two finite numbers as JavaScript does it: by a zero divisor the quotient is
  \<open>NaN\<close> for \<open>0 / 0\<close> and an infinity with the sign of the dividend otherwise (the
  divisor \<open>binSize\<close> is \<open>+0\<close> when it is zero, being \<open>(max - min) / 50\<close> with
  \<open>max = min\<close>).
\<close>

definition js_div :: "rat \<Rightarrow> rat \<Rightarrow> jsnum" where
  "js_div a b =
     (if b \<noteq> 0 then Fin (a / b)
      else if a = 0 then NaN
      else if a > 0 then PosInfinity
      else NegInfinity)"

text \<open>\<open>Math.floor\<close>: \<open>NaN\<close> and the infinities are returned as they are.\<close>

fun js_floor :: "jsnum \<Rightarrow> jsnum" where
  "js_floor (Fin r) = Fin (of_int \<lfloor>r\<rfloor>)"
| "js_floor x = x"

text \<open>\<open>Math.min(x, b)\<close> with a finite \<open>b\<close>: \<open>NaN\<close> if \<open>x\<close> is \<open>NaN\<close>.\<close>

fun js_min :: "jsnum \<Rightarrow> rat \<Rightarrow> jsnum" where
  "js_min NaN b = NaN"
| "js_min NegInfinity b = NegInfinity"
| "js_min PosInfinity b = Fin b"
| "js_min (Fin a) b = Fin (min a b)"

definition binCount :: nat where
  "binCount = 50"

definition binSize :: "MonteCarloData \<Rightarrow> rat" where
  "binSize d = (d_max (distribution d) - d_min (distribution d)) / of_nat binCount"

text \<open>\<open>Math.min(Math.floor((sim - min) / binSize), binCount - 1)\<close>.\<close>

definition binIndex :: "MonteCarloData \<Rightarrow> rat \<Rightarrow> jsnum" where
  "binIndex d sim =
     js_min (js_floor (js_div (sim - d_min (distribution d)) (binSize d))) (of_nat binCount - 1)"

text \<open>
  The guard \<open>binIndex >= 0 && binIndex < binCount\<close>: a comparison with \<open>NaN\<close> is false,
  and so is \<open>-Infinity >= 0\<close>. \<open>Some k\<close> is the slot of \<open>bins\<close> that is incremented,
  \<open>None\<close> means that the simulation is not counted.
\<close>

definition binSlot :: "MonteCarloData \<Rightarrow> rat \<Rightarrow> nat option" where
  "binSlot d sim =
     (case binIndex d sim of
        Fin k \<Rightarrow> if k \<ge> 0 \<and> k < of_nat binCount then Some (nat \<lfloor>k\<rfloor>) else None
      | _ \<Rightarrow> None)"

text \<open>The body of the \<open>forEach\<close>: \<open>bins[binIndex].count++\<close> under the guard.\<close>

definition countSim :: "MonteCarloData \<Rightarrow> Bin list \<Rightarrow> rat \<Rightarrow> Bin list" where
  "countSim d bins sim =
     (case binSlot d sim of
        Some k \<Rightarrow> bins[k := (bins ! k)\<lparr>bin_count := Suc (bin_count (bins ! k))\<rparr>]
      | None \<Rightarrow> bins)"

text \<open>The first loop: \<open>binCount\<close> bins with their mid-point values and count \<open>0\<close>.\<close>

definition emptyBins :: "MonteCarloData \<Rightarrow> Bin list" where
  "emptyBins d =
     map (\<lambda>i. \<lparr>bin_value = d_min (distribution d) + (of_nat i + 1 / 2) * binSize d,
               bin_count = 0\<rparr>) [0..<binCount]"

definition createHistogram :: "MonteCarloData \<Rightarrow> Bin list" where
  "createHistogram d = foldl (countSim d) (emptyBins d) (simulations d)"

subsection \<open>Built-ins of JavaScript used by the form and the import\<close>

text \<open>
  Strings are ASCII: \<open>char\<close> is a byte, so white space and letters beyond ASCII are not
  recognised as such.
\<close>

definition isWhiteSpace :: "char \<Rightarrow> bool" where
  "isWhiteSpace c = (c \<in> set [CHR '' '', CHR 0x09, CHR 0x0A, CHR 0x0B, CHR 0x0C, CHR 0x0D])"

definition isDigit :: "char \<Rightarrow> bool" where
  "isDigit c = (48 \<le> (of_char c :: nat) \<and> (of_char c :: nat) \<le> 57)"

text \<open>The value of a string of decimal digits.\<close>

definition digitsValue :: "string \<Rightarrow> nat" where
  "digitsValue ds = foldl (\<lambda>a c. 10 * a + (of_char c - 48)) 0 ds"

text \<open>\<open>m\<close> times ten to the power \<open>e\<close>.\<close>

definition scale10 :: "rat \<Rightarrow> int \<Rightarrow> rat" where
  "scale10 m e = (if 0 \<le> e then m * 10 ^ nat e else m / 10 ^ nat (- e))"

text \<open>
  The exponent of a literal, read at the start of what follows the mantissa: \<open>e\<close> or \<open>E\<close>,
  an optional sign and digits. Without digits there is no exponent part and the value
  is \<open>0\<close>.
\<close>

definition exponentPart :: "string \<Rightarrow> int" where
  "exponentPart s =
     (case s of
        [] \<Rightarrow> 0
      | c # r \<Rightarrow>
          if c = CHR ''e'' \<or> c = CHR ''E'' then
            (case r of
               [] \<Rightarrow> 0
             | c' # r' \<Rightarrow>
                 if c' = CHR ''-'' then - int (digitsValue (takeWhile isDigit r'))
                 else if c' = CHR ''+'' then int (digitsValue (takeWhile isDigit r'))
                 else int (digitsValue (takeWhile isDigit r)))
          else 0)"

text \<open>
  The longest prefix that is an unsigned decimal literal: digits, optionally a point and
  digits, optionally an exponent; at least one digit before or after the point.
\<close>

definition unsignedDecimal :: "string \<Rightarrow> rat option" where
  "unsignedDecimal s =
     (let ip = takeWhile isDigit s;
          r1 = dropWhile isDigit s;
          fp = (case r1 of c # r \<Rightarrow> if c = CHR ''.'' then takeWhile isDigit r else [] | [] \<Rightarrow> []);
          r2 = (case r1 of c # r \<Rightarrow> if c = CHR ''.'' then dropWhile isDigit r else r1 | [] \<Rightarrow> [])
      in if ip = [] \<and> fp = [] then None
         else Some (scale10 (of_nat (digitsValue (ip @ fp)) / 10 ^ length fp) (exponentPart r2)))"

text \<open>
  \<open>parseFloat\<close> of ECMAScript: leading white space is skipped, then the longest prefix
  that is a signed decimal literal or \<open>Infinity\<close> is read and the rest is ignored;
  \<open>NaN\<close> if there is no such prefix. The value is the exact rational (a literal beyond
  the range of a double is not turned into an infinity).
\<close>

definition parseFloat :: "string \<Rightarrow> jsnum" where
  "parseFloat s =
     (let t = dropWhile isWhiteSpace s;
          neg = (case t of c # _ \<Rightarrow> c = CHR ''-'' | [] \<Rightarrow> False);
          u = (case t of c # r \<Rightarrow> if c = CHR ''-'' \<or> c = CHR ''+'' then r else t | [] \<Rightarrow> [])
      in if take 8 u = ''Infinity'' then (if neg then NegInfinity else PosInfinity)
         else (case unsignedDecimal u of
                 None \<Rightarrow> NaN
               | Some m \<Rightarrow> Fin (if neg then - m else m)))"

text \<open>\<open>String.prototype.trim\<close> and \<open>toUpperCase\<close>, on ASCII.\<close>

definition js_trim :: "string \<Rightarrow> string" where
  "js_trim s = rev (dropWhile isWhiteSpace (rev (dropWhile isWhiteSpace s)))"

definition toUpperCase :: "string \<Rightarrow> string" where
  "toUpperCase s =
     map (\<lambda>c. if 97 \<le> (of_char c :: nat) \<and> (of_char c :: nat) \<le> 122
              then char_of ((of_char c :: nat) - 32) else c) s"

subsection \<open>PortfolioForm: adding or updating a position\<close>

text \<open>The object \<open>newPosition\<close> built by \<open>handleAddPosition\<close> from the form's fields.\<close>

definition newPosition :: "form_state \<Rightarrow> PortfolioPosition" where
  "newPosition st =
     \<lparr>ticker = toUpperCase (ticker_text st),
      quantity = parseFloat (quantity_text st),
      asset_class = assetClass st,
      avg_price = (if avgPrice st \<noteq> [] then Some (parseFloat (avgPrice st)) else None),
      purchase_date = (if purchaseDate st \<noteq> [] then Some (purchaseDate st) else None)\<rparr>"

text \<open>
  The copy \<open>[...positions]\<close> after \<open>updatedPositions[i] = v\<close>. Inside the array the
  element is replaced; at or beyond its end JavaScript extends the array, leaving empty
  slots (\<open>None\<close>) between the old end and \<open>i\<close>. The index can lie beyond the end when
  rows were removed while another row was being edited.
\<close>

definition js_assign :: "'a list \<Rightarrow> nat \<Rightarrow> 'a \<Rightarrow> 'a option list" where
  "js_assign xs i v =
     (if i < length xs then map Some (xs[i := v])
      else map Some xs @ replicate (i - length xs) None @ [Some v])"

text \<open>
  \<open>handleAddPosition\<close>: \<open>None\<close> when the handler returns early (empty ticker or
  quantity text, or a ticker marked invalid); otherwise the array handed to
  \<open>onPositionsChange\<close> and the form with its fields cleared.
\<close>

definition handleAddPosition ::
  "form_state \<Rightarrow> PortfolioPosition list \<Rightarrow> (PortfolioPosition option list \<times> form_state) option" where
  "handleAddPosition st positions =
     (if ticker_text st = [] \<or> quantity_text st = [] then None
      else if isValid st = Some False then None
      else Some
        (case editingIndex st of
           Some i \<Rightarrow> js_assign positions i (newPosition st)
         | None \<Rightarrow> map Some (positions @ [newPosition st]),
         st\<lparr>ticker_text := [], quantity_text := [], avgPrice := [], purchaseDate := [],
            isValid := None, editingIndex := None\<rparr>))"

subsection \<open>ImportModal: positions from the rows of a CSV file\<close>

text \<open>
  The state \<open>mapping\<close>: the names of the ticker and quantity columns (the fields
  \<open>ticker\<close>, \<open>quantity\<close> and \<open>type\<close> of the source, prefixed with \<open>map_\<close>). A parsed
  row maps a column name to the text of its cell.
\<close>

record column_mapping =
  map_ticker :: string
  map_quantity :: string
  map_type :: string

datatype import_error = UnmappedColumns | NoValidPositions

text \<open>
  The function mapped over \<open>parsedData\<close>. A missing ticker cell gives \<open>undefined\<close> and
  the row is dropped; a missing quantity cell gives \<open>parseFloat(undefined)\<close>, which is
  \<open>NaN\<close>. A row is dropped when its ticker is empty or its quantity is \<open>NaN\<close>, and for
  no other reason.
\<close>

definition rowPosition :: "column_mapping \<Rightarrow> (string \<rightharpoonup> string) \<Rightarrow> PortfolioPosition option" where
  "rowPosition mapping row =
     (let t = map_option (\<lambda>s. toUpperCase (js_trim s)) (row (map_ticker mapping));
          q = (case row (map_quantity mapping) of None \<Rightarrow> NaN | Some s \<Rightarrow> parseFloat s)
      in case t of
           None \<Rightarrow> None
         | Some tk \<Rightarrow>
             if tk = [] \<or> q = NaN then None
             else Some \<lparr>ticker = tk, quantity = q, asset_class = Equity,
                        avg_price = None, purchase_date = None\<rparr>)"

definition handleConfirm ::
  "column_mapping \<Rightarrow> (string \<rightharpoonup> string) list \<Rightarrow> import_error + PortfolioPosition list" where
  "handleConfirm mapping parsedData =
     (if map_ticker mapping = [] \<or> map_quantity mapping = [] then Inl UnmappedColumns
      else let positions = List.map_filter (rowPosition mapping) parsedData
           in if positions = [] then Inl NoValidPositions else Inr positions)"

subsection \<open>The portfolio page: import and analysis request\<close>

text \<open>\<open>setPositions(prev => [...prev, ...importedPositions])\<close>.\<close>

definition handleImport :: "PortfolioPosition list \<Rightarrow> PortfolioPosition list \<Rightarrow> PortfolioPosition list" where
  "handleImport prev importedPositions = prev @ importedPositions"

text \<open>
  The \<open>positions\<close> of the body that \<open>analyzePortfolio\<close> posts to the analysis endpoint;
  \<open>None\<close> when the list is empty and no request is made.
\<close>

definition analyzeBody :: "PortfolioPosition list \<Rightarrow> PortfolioPosition list option" where
  "analyzeBody positions =
     (if positions = [] then None
      else Some (map (\<lambda>p. \<lparr>ticker = ticker p, quantity = quantity p, asset_class = asset_class p,
                            avg_price = avg_price p, purchase_date = purchase_date p\<rparr>) positions))"

subsection \<open>lib/utils.ts and number formatting\<close>


text \<open>
  \<open>x.toFixed(2)\<close> of a finite number: the digits shown are those of the integer \<open>n\<close> for
  which \<open>n / 100\<close> is nearest to \<open>x\<close>, the larger magnitude on a tie, with the sign of
  \<open>x\<close>. The model returns \<open>n\<close>, the number of hundredths shown, in place of the string.
\<close>

definition toFixed2 :: "rat \<Rightarrow> int" where
  "toFixed2 x = (if x < 0 then - \<lfloor>- x * 100 + 1 / 2\<rfloor> else \<lfloor>x * 100 + 1 / 2\<rfloor>)"


text \<open>
  \<open>formatPercent(value)\<close> with the default two decimals shows \<open>(value * 100).toFixed(2)\<close>
  followed by a percent sign; \<open>formatCurrency(value)\<close> shows \<open>value\<close> in dollars with
  two fraction digits, rounded half away from zero. Both return the hundredths shown.
\<close>

definition formatPercent :: "rat \<Rightarrow> int" where
  "formatPercent v = toFixed2 (v * 100)"

definition formatCurrency :: "rat \<Rightarrow> int" where
  "formatCurrency v = toFixed2 v"

subsection \<open>PerformanceMetrics and its consumers\<close>


















subsection \<open>RiskCharts and the ranking of risk contributions\<close>

text \<open>
  \<open>PositionDetail\<close> of lib/types.ts, its required fields; \<open>ticker\<close>, \<open>quantity\<close> and
  \<open>value\<close> carry the prefix \<open>pos_\<close>.
\<close>

record PositionDetail =
  pos_ticker :: string
  pos_quantity :: rat
  current_price :: rat
  pos_value :: rat
  weight :: rat
  volatility :: rat
  risk_contribution_pct :: rat
  marginal_risk :: rat

text \<open>
  \<open>[...data.positions].sort((a, b) => b.risk_contribution_pct - a.risk_contribution_pct)\<close>:
  the comparator orders by \<open>risk_contribution_pct\<close> descending, and
  \<open>Array.prototype.sort\<close> is stable. This is the stable sort by the negated key
  ascending. A chart entry \<open>{ name, risk }\<close> is a pair.
\<close>

definition sortedByRisk :: "PositionDetail list \<Rightarrow> PositionDetail list" where
  "sortedByRisk positions = sort_key (\<lambda>p. - risk_contribution_pct p) positions"

definition riskData :: "PositionDetail list \<Rightarrow> (string \<times> rat) list" where
  "riskData positions =
     map (\<lambda>pos. (pos_ticker pos, risk_contribution_pct pos)) (sortedByRisk positions)"

record RiskDriver =
  name :: string
  contribution_pct :: rat

text \<open>
  Modelled from the spec: the explanation generator of the back end, which is not among
  the sources. Spec 4.10: it "ranks positions by risk_contribution_pct descending,
  emits top-k (e.g., 3) as top_drivers"; a driver is the position's name and its
  contribution (\<open>RiskDriver\<close> of lib/types.ts).
\<close>

definition top_drivers :: "nat \<Rightarrow> PositionDetail list \<Rightarrow> RiskDriver list" where
  "top_drivers k positions =
     take k (map (\<lambda>p. \<lparr>name = pos_ticker p, contribution_pct = risk_contribution_pct p\<rparr>)
               (sort_key (\<lambda>p. - risk_contribution_pct p) positions))"

subsection \<open>ScenarioTester\<close>

text \<open>
  Modelled from the spec: an entry of the scenario catalog, which the back end holds and
  the sources do not. Spec 4.8: "Scenario catalog entries each provide {id, name,
  description, severity, date_range, per-asset-class or aggregate market_shock_pct}";
  the icon and the duration are the two further fields that \<open>ScenarioImpact\<close> repeats.
  The names carry the prefix \<open>sc_\<close>.
\<close>

record ScenarioEntry =
  sc_id :: string
  sc_name :: string
  sc_description :: string
  sc_severity :: string
  sc_icon :: string
  sc_date_range :: "string \<times> string"
  sc_duration_days :: nat
  sc_market_shock_pct :: rat

text \<open>\<open>ScenarioImpact\<close> of ScenarioTester.tsx, the response of the scenario test.\<close>

record ScenarioImpact =
  scenario_name :: string
  description :: string
  date_range :: "string \<times> string"
  duration_days :: nat
  severity :: string
  icon :: string
  market_shock_pct :: rat
  original_value :: rat
  projected_value :: rat
  projected_loss :: rat
  loss_pct :: rat

text \<open>
  Modelled from the spec: the scenario module of the back end (the endpoint that
  \<open>testScenario\<close> of ScenarioTester.tsx posts to), which is not among the sources. Spec
  4.8: "Applying scenario X to value V yields projected_value = V * (1 +
  market_shock_pct), projected_loss = V - projected_value, loss_pct =
  market_shock_pct."
\<close>

definition testScenario :: "ScenarioEntry \<Rightarrow> rat \<Rightarrow> ScenarioImpact" where
  "testScenario sc v =
     \<lparr>scenario_name = sc_name sc, description = sc_description sc,
      date_range = sc_date_range sc, duration_days = sc_duration_days sc,
      severity = sc_severity sc, icon = sc_icon sc,
      market_shock_pct = sc_market_shock_pct sc,
      original_value = v,
      projected_value = v * (1 + sc_market_shock_pct sc),
      projected_loss = v - v * (1 + sc_market_shock_pct sc),
      loss_pct = sc_market_shock_pct sc\<rparr>"

text \<open>
  The panel "Impact Numbers" of the component: \<open>formatCurrency(impact.original_value)\<close>,
  \<open>formatCurrency(impact.projected_loss)\<close>, \<open>formatPercent(impact.loss_pct / 100)\<close>
  followed by the word "decline", and \<open>formatCurrency(impact.projected_value)\<close>.
\<close>

record ImpactNumbers =
  original_shown :: int
  loss_shown :: int
  decline_shown :: int
  projected_shown :: int

definition impactNumbers :: "ScenarioImpact \<Rightarrow> ImpactNumbers" where
  "impactNumbers impact =
     \<lparr>original_shown = formatCurrency (original_value impact),
      loss_shown = formatCurrency (projected_loss impact),
      decline_shown = formatPercent (loss_pct impact / 100),
      projected_shown = formatCurrency (projected_value impact)\<rparr>"

section \<open>Removing a position\<close>











section \<open>The correlation heatmap\<close>

lemma corrMap_foldl_absent:
  "k \<notin> set (map (\<lambda>item. corrKey (ticker1 item) (ticker2 item)) items) \<Longrightarrow>
   foldl (\<lambda>m item. m(corrKey (ticker1 item) (ticker2 item) \<mapsto> correlation item)) m0 items k
     = m0 k"
  by (induction items arbitrary: m0) auto

lemma cellCorrelation_absent:
  assumes "corrKey t1 t2
             \<notin> set (map (\<lambda>item. corrKey (ticker1 item) (ticker2 item)) (correlations d))"
  shows "cellCorrelation d t1 t2 = 0"
proof -
  from assms have "corrMap (correlations d) (corrKey t1 t2) = None"
    unfolding corrMap_def by (rule corrMap_foldl_absent [where ?m0.0 = Map.empty])
  then show ?thesis by (simp add: cellCorrelation_def)
qed

lemma getCorrelationColor_nonpositive:
  "c \<le> 0 \<Longrightarrow> getCorrelationColor c \<in> {''bg-blue-300'', ''bg-blue-400'', ''bg-blue-500''}"
  by (simp add: getCorrelationColor_def)

text \<open>
  C10. The lookup map of the heatmap is keyed by the string \<open>ticker1-ticker2\<close> alone:
  for every ordered pair of tickers whose key is the key of no entry of the correlations
  list, the correlation looked up is \<open>0\<close>, and the cell of the grid at that pair shows
  \<open>0\<close> in the lightest blue; and \<open>getCorrelationColor\<close> maps every correlation \<open>\<le> 0\<close>,
  \<open>0\<close> included, to one of the three blue shades.
\<close>

theorem heatmap_absent_key_zero_and_blue:
  "(corrKey t1 t2 \<notin> set (map (\<lambda>item. corrKey (ticker1 item) (ticker2 item)) (correlations d))
      \<longrightarrow> cellCorrelation d t1 t2 = 0)
   \<and> (i < length (tickers d) \<and> j < length (tickers d)
       \<and> corrKey (tickers d ! i) (tickers d ! j)
            \<notin> set (map (\<lambda>item. corrKey (ticker1 item) (ticker2 item)) (correlations d))
      \<longrightarrow> heatmapCells d ! i ! j = (0, ''bg-blue-300''))
   \<and> (c \<le> 0 \<longrightarrow>
        getCorrelationColor c \<in> {''bg-blue-300'', ''bg-blue-400'', ''bg-blue-500''})"
proof (intro conjI impI)
  assume "corrKey t1 t2
            \<notin> set (map (\<lambda>item. corrKey (ticker1 item) (ticker2 item)) (correlations d))"
  then show "cellCorrelation d t1 t2 = 0" by (rule cellCorrelation_absent)
next
  assume a: "i < length (tickers d) \<and> j < length (tickers d)
             \<and> corrKey (tickers d ! i) (tickers d ! j)
                  \<notin> set (map (\<lambda>item. corrKey (ticker1 item) (ticker2 item)) (correlations d))"
  then have "cellCorrelation d (tickers d ! i) (tickers d ! j) = 0"
    by (simp add: cellCorrelation_absent)
  then show "heatmapCells d ! i ! j = (0, ''bg-blue-300'')"
    using a by (simp add: heatmapCells_def getCorrelationColor_def)
next
  assume "c \<le> 0"
  then show "getCorrelationColor c \<in> {''bg-blue-300'', ''bg-blue-400'', ''bg-blue-500''}"
    by (rule getCorrelationColor_nonpositive)
qed

text \<open>
  At the data \<open>AAPL-MSFT: 0.8\<close>, the reversed pair \<open>MSFT-AAPL\<close> and the diagonal pair
  \<open>AAPL-AAPL\<close> (row 0, column 0 of the grid) have no entry: both show \<open>0\<close>, drawn in
  the lightest blue.
\<close>

theorem heatmap_absent_key_zero_and_blue_witness:
  "cellCorrelation
     \<lparr>tickers = [''AAPL'', ''MSFT''],
      correlations = [\<lparr>ticker1 = ''AAPL'', ticker2 = ''MSFT'', correlation = 4 / 5\<rparr>]\<rparr>
     ''MSFT'' ''AAPL'' = 0
   \<and> heatmapCells
     \<lparr>tickers = [''AAPL'', ''MSFT''],
      correlations = [\<lparr>ticker1 = ''AAPL'', ticker2 = ''MSFT'', correlation = 4 / 5\<rparr>]\<rparr>
     ! 0 ! 0 = (0, ''bg-blue-300'')
   \<and> getCorrelationColor 0 \<in> {''bg-blue-300'', ''bg-blue-400'', ''bg-blue-500''}"
  using heatmap_absent_key_zero_and_blue
          [of "''MSFT''" "''AAPL''"
              "\<lparr>tickers = [''AAPL'', ''MSFT''],
                correlations = [\<lparr>ticker1 = ''AAPL'', ticker2 = ''MSFT'', correlation = 4 / 5\<rparr>]\<rparr>"
              0 0 0]
  by (simp add: corrKey_def)

section \<open>The Monte Carlo histogram\<close>

lemma binSlot_less: "binSlot d s = Some k \<Longrightarrow> k < binCount"
  apply (auto simp: binSlot_def binCount_def split: jsnum.splits if_splits)
  by linarith

lemma length_countSim: "length (countSim d bins s) = length bins"
  by (simp add: countSim_def split: option.splits)

lemma length_foldl_countSim: "length (foldl (countSim d) bins sims) = length bins"
  by (induction sims arbitrary: bins) (simp_all add: length_countSim)

lemma count_countSim:
  "j < length bins \<Longrightarrow>
   bin_count (countSim d bins s ! j) = bin_count (bins ! j) + (if binSlot d s = Some j then 1 else 0)"
  by (auto simp: countSim_def nth_list_update split: option.splits)

lemma count_foldl_countSim:
  "j < length bins \<Longrightarrow>
   bin_count (foldl (countSim d) bins sims ! j)
     = bin_count (bins ! j) + length (filter (\<lambda>s. binSlot d s = Some j) sims)"
proof (induction sims arbitrary: bins)
  case Nil
  then show ?case by simp
next
  case (Cons s sims)
  have "j < length (countSim d bins s)" using Cons.prems by (simp add: length_countSim)
  from Cons.IH[OF this] show ?case using Cons.prems by (simp add: count_countSim)
qed

lemma length_createHistogram: "length (createHistogram d) = 50"
  by (simp add: createHistogram_def length_foldl_countSim emptyBins_def binCount_def)

lemma count_createHistogram:
  "j < 50 \<Longrightarrow> bin_count (createHistogram d ! j) = length (filter (\<lambda>s. binSlot d s = Some j) (simulations d))"
  unfolding createHistogram_def
  by (subst count_foldl_countSim) (simp_all add: emptyBins_def binCount_def del: upt_Suc)


lemma sum_countSim:
  "sum_list (map bin_count (countSim d bins s))
     = sum_list (map bin_count bins) + (if \<exists>k < length bins. binSlot d s = Some k then 1 else 0)"
proof (cases "binSlot d s")
  case None
  then show ?thesis by (simp add: countSim_def)
next
  case (Some k)
  show ?thesis
  proof (cases "k < length bins")
    case True
    then have "map bin_count bins ! k \<in> set (map bin_count bins)"
      by (intro nth_mem) simp
    then have "map bin_count bins ! k \<le> sum_list (map bin_count bins)"
      by (rule member_le_sum_list) simp
    then show ?thesis using Some True
      by (simp add: countSim_def map_update sum_list_update)
  next
    case False
    then show ?thesis using Some by (simp add: countSim_def list_update_beyond)
  qed
qed

lemma sum_foldl_countSim:
  "sum_list (map bin_count (foldl (countSim d) bins sims))
     = sum_list (map bin_count bins)
       + length (filter (\<lambda>s. \<exists>k < length bins. binSlot d s = Some k) sims)"
proof (induction sims arbitrary: bins)
  case Nil
  then show ?case by simp
next
  case (Cons s sims)
  show ?case by (simp add: Cons.IH length_countSim sum_countSim)
qed

lemma sum_emptyBins: "sum_list (map bin_count (emptyBins d)) = 0"
  by (simp add: emptyBins_def comp_def)

lemma sum_createHistogram:
  "sum_list (map bin_count (createHistogram d))
     = length (filter (\<lambda>s. binSlot d s \<noteq> None) (simulations d))"
proof -
  have "(\<lambda>s. \<exists>k < length (emptyBins d). binSlot d s = Some k) = (\<lambda>s. binSlot d s \<noteq> None)"
    using binSlot_less [of d] by (auto simp: fun_eq_iff emptyBins_def)
  then show ?thesis
    by (simp add: createHistogram_def sum_foldl_countSim sum_emptyBins)
qed

lemma binSlot_positive_width:
  assumes "d_min (distribution d) < d_max (distribution d)"
  shows "binSlot d s =
           (if d_min (distribution d) \<le> s
            then Some (min (nat \<lfloor>(s - d_min (distribution d)) / binSize d\<rfloor>) 49)
            else None)"
proof -
  let ?q = "(s - d_min (distribution d)) / binSize d"
  have pos: "0 < binSize d" using assms by (simp add: binSize_def binCount_def)
  have idx: "binIndex d s = Fin (min (of_int \<lfloor>?q\<rfloor>) 49)"
    using pos by (simp add: binIndex_def js_div_def binCount_def)
  have sign: "0 \<le> ?q \<longleftrightarrow> d_min (distribution d) \<le> s"
    using pos by (simp add: zero_le_divide_iff)
  show ?thesis
  proof (cases "d_min (distribution d) \<le> s")
    case True
    then have f0: "0 \<le> \<lfloor>?q\<rfloor>" using sign by simp
    have m: "min (of_int \<lfloor>?q\<rfloor>) (49::rat) = of_int (min \<lfloor>?q\<rfloor> 49)"
      by (simp add: min_def)
    have "nat (min \<lfloor>?q\<rfloor> 49) = min (nat \<lfloor>?q\<rfloor>) 49"
      using f0 by (simp add: min_def) linarith
    moreover have "0 \<le> min \<lfloor>?q\<rfloor> 49" using f0 by simp
    ultimately show ?thesis using True
      by (simp add: binSlot_def idx binCount_def m del: of_int_min)
  next
    case False
    then have "?q < 0" using sign by simp
    then have "\<lfloor>?q\<rfloor> < 0" by (simp add: floor_less_zero)
    then have "\<not> 0 \<le> min (of_int \<lfloor>?q\<rfloor>) (49::rat)" by simp
    then show ?thesis using False by (simp only: binSlot_def idx jsnum.case if_False simp_thms)
  qed
qed

lemma binSlot_zero_width:
  assumes "d_min (distribution d) = d_max (distribution d)"
  shows "binSlot d s = (if d_min (distribution d) < s then Some 49 else None)"
  using assms
  by (simp add: binSlot_def binIndex_def js_div_def binSize_def binCount_def)

text \<open>
  C8, as the code has it. \<open>createHistogram\<close> always returns 50 bins and increments only
  slots \<open>0 .. 49\<close>; the count of bin \<open>j\<close> is the number of simulations whose slot is \<open>j\<close>.
  When \<open>min < max\<close>, a simulation \<open>s\<close> is counted exactly when \<open>min \<le> s\<close>, in the bin
  \<open>min(floor((s - min) / binSize), 49)\<close>: a value above \<open>max\<close> is counted too, in bin 49,
  so the counts sum to the number of simulations \<open>\<ge> min\<close>. When \<open>min = max\<close>, a
  simulation above that value is counted in bin 49 (the quotient is \<open>Infinity\<close>, which
  \<open>Math.min\<close> turns into 49) and no other simulation is counted. With every simulation
  inside \<open>[min, max]\<close> the counts sum to the number of simulations when \<open>min < max\<close> and
  are all \<open>0\<close> when \<open>min = max\<close>.
\<close>

theorem create_histogram_counts:
  "length (createHistogram d) = 50
   \<and> (\<forall>s k. binSlot d s = Some k \<longrightarrow> k < 50)
   \<and> (\<forall>j<50. bin_count (createHistogram d ! j)
                 = length (filter (\<lambda>s. binSlot d s = Some j) (simulations d)))
   \<and> (d_min (distribution d) < d_max (distribution d) \<longrightarrow>
        (\<forall>s. binSlot d s =
               (if d_min (distribution d) \<le> s
                then Some (min (nat \<lfloor>(s - d_min (distribution d)) / binSize d\<rfloor>) 49)
                else None))
        \<and> sum_list (map bin_count (createHistogram d))
            = length (filter (\<lambda>s. d_min (distribution d) \<le> s) (simulations d))
        \<and> ((\<forall>s \<in> set (simulations d). d_min (distribution d) \<le> s) \<longrightarrow>
             sum_list (map bin_count (createHistogram d)) = length (simulations d)))
   \<and> (d_min (distribution d) = d_max (distribution d) \<longrightarrow>
        (\<forall>s. binSlot d s = (if d_min (distribution d) < s then Some 49 else None))
        \<and> (\<forall>j<49. bin_count (createHistogram d ! j) = 0)
        \<and> bin_count (createHistogram d ! 49)
            = length (filter (\<lambda>s. d_min (distribution d) < s) (simulations d))
        \<and> ((\<forall>s \<in> set (simulations d). s \<le> d_max (distribution d)) \<longrightarrow>
             (\<forall>j<50. bin_count (createHistogram d ! j) = 0)))"
proof (intro conjI impI allI)
  show "length (createHistogram d) = 50" by (rule length_createHistogram)
next
  fix s k assume "binSlot d s = Some k"
  then show "k < 50" using binSlot_less [of d s k] by (simp add: binCount_def)
next
  fix j :: nat assume "j < 50"
  then show "bin_count (createHistogram d ! j)
               = length (filter (\<lambda>s. binSlot d s = Some j) (simulations d))"
    by (rule count_createHistogram)
next
  fix s assume "d_min (distribution d) < d_max (distribution d)"
  then show "binSlot d s =
               (if d_min (distribution d) \<le> s
                then Some (min (nat \<lfloor>(s - d_min (distribution d)) / binSize d\<rfloor>) 49)
                else None)"
    by (rule binSlot_positive_width)
next
  assume "d_min (distribution d) < d_max (distribution d)"
  then have "(\<lambda>s. binSlot d s \<noteq> None) = (\<lambda>s. d_min (distribution d) \<le> s)"
    by (simp add: binSlot_positive_width fun_eq_iff)
  then show "sum_list (map bin_count (createHistogram d))
               = length (filter (\<lambda>s. d_min (distribution d) \<le> s) (simulations d))"
    by (simp add: sum_createHistogram)
next
  assume lt: "d_min (distribution d) < d_max (distribution d)"
     and all: "\<forall>s \<in> set (simulations d). d_min (distribution d) \<le> s"
  from lt have "(\<lambda>s. binSlot d s \<noteq> None) = (\<lambda>s. d_min (distribution d) \<le> s)"
    by (simp add: binSlot_positive_width fun_eq_iff)
  moreover from all
  have "filter (\<lambda>s. d_min (distribution d) \<le> s) (simulations d) = simulations d"
    by (simp add: filter_id_conv)
  ultimately show "sum_list (map bin_count (createHistogram d)) = length (simulations d)"
    by (simp add: sum_createHistogram)
next
  fix s assume "d_min (distribution d) = d_max (distribution d)"
  then show "binSlot d s = (if d_min (distribution d) < s then Some 49 else None)"
    by (rule binSlot_zero_width)
next
  fix j :: nat
  assume eq: "d_min (distribution d) = d_max (distribution d)" and j: "j < 49"
  have "filter (\<lambda>s. binSlot d s = Some j) (simulations d) = []"
    using j by (simp add: binSlot_zero_width [OF eq] filter_empty_conv)
  then show "bin_count (createHistogram d ! j) = 0"
    using j by (simp add: count_createHistogram)
next
  assume eq: "d_min (distribution d) = d_max (distribution d)"
  have "(\<lambda>s. binSlot d s = Some 49) = (\<lambda>s. d_min (distribution d) < s)"
    by (simp add: binSlot_zero_width [OF eq] fun_eq_iff)
  then show "bin_count (createHistogram d ! 49)
               = length (filter (\<lambda>s. d_min (distribution d) < s) (simulations d))"
    by (simp add: count_createHistogram)
next
  fix j :: nat
  assume eq: "d_min (distribution d) = d_max (distribution d)"
     and all: "\<forall>s \<in> set (simulations d). s \<le> d_max (distribution d)"
     and j: "j < 50"
  have "filter (\<lambda>s. binSlot d s = Some j) (simulations d) = []"
    using all eq by (auto simp: binSlot_zero_width [OF eq] filter_empty_conv)
  then show "bin_count (createHistogram d ! j) = 0"
    using j by (simp add: count_createHistogram)
qed

text \<open>
  With \<open>min = 0\<close> and \<open>max = 50\<close>, of the seven simulations the six that are \<open>\<ge> 0\<close> are
  counted (\<open>60\<close> among them). With \<open>min = max = 100\<close>, of \<open>101\<close>, \<open>100\<close> and \<open>99\<close> only
  \<open>101\<close> is counted, in bin 49; with the single simulation \<open>100\<close> nothing is counted.
\<close>

theorem create_histogram_counts_witness:
  "length (createHistogram
     \<lparr>mc_var_95 = 0, mc_cvar_95 = 0, num_simulations = 7, confidence_level = 19 / 20,
      distribution = \<lparr>d_mean = 0, d_std = 0, d_min = 0, d_max = 50\<rparr>,
      simulations = [60, 0, 50, - 1, 1 / 2, 49, 7]\<rparr>) = 50
   \<and> sum_list (map bin_count (createHistogram
     \<lparr>mc_var_95 = 0, mc_cvar_95 = 0, num_simulations = 7, confidence_level = 19 / 20,
      distribution = \<lparr>d_mean = 0, d_std = 0, d_min = 0, d_max = 50\<rparr>,
      simulations = [60, 0, 50, - 1, 1 / 2, 49, 7]\<rparr>)) = 6
   \<and> sum_list (map bin_count (createHistogram
     \<lparr>mc_var_95 = 0, mc_cvar_95 = 0, num_simulations = 3, confidence_level = 19 / 20,
      distribution = \<lparr>d_mean = 0, d_std = 0, d_min = 0, d_max = 50\<rparr>,
      simulations = [0, 50, 25]\<rparr>)) = 3
   \<and> bin_count (createHistogram
     \<lparr>mc_var_95 = 0, mc_cvar_95 = 0, num_simulations = 3, confidence_level = 19 / 20,
      distribution = \<lparr>d_mean = 100, d_std = 0, d_min = 100, d_max = 100\<rparr>,
      simulations = [101, 100, 99]\<rparr> ! 49) = 1
   \<and> bin_count (createHistogram
     \<lparr>mc_var_95 = 0, mc_cvar_95 = 0, num_simulations = 1, confidence_level = 19 / 20,
      distribution = \<lparr>d_mean = 100, d_std = 0, d_min = 100, d_max = 100\<rparr>,
      simulations = [100]\<rparr> ! 49) = 0"
  using create_histogram_counts
          [of "\<lparr>mc_var_95 = 0, mc_cvar_95 = 0, num_simulations = 7, confidence_level = 19 / 20,
                distribution = \<lparr>d_mean = 0, d_std = 0, d_min = 0, d_max = 50\<rparr>,
                simulations = [60, 0, 50, - 1, 1 / 2, 49, 7]\<rparr>"]
        create_histogram_counts
          [of "\<lparr>mc_var_95 = 0, mc_cvar_95 = 0, num_simulations = 3, confidence_level = 19 / 20,
                distribution = \<lparr>d_mean = 0, d_std = 0, d_min = 0, d_max = 50\<rparr>,
                simulations = [0, 50, 25]\<rparr>"]
        create_histogram_counts
          [of "\<lparr>mc_var_95 = 0, mc_cvar_95 = 0, num_simulations = 3, confidence_level = 19 / 20,
                distribution = \<lparr>d_mean = 100, d_std = 0, d_min = 100, d_max = 100\<rparr>,
                simulations = [101, 100, 99]\<rparr>"]
        create_histogram_counts
          [of "\<lparr>mc_var_95 = 0, mc_cvar_95 = 0, num_simulations = 1, confidence_level = 19 / 20,
                distribution = \<lparr>d_mean = 100, d_std = 0, d_min = 100, d_max = 100\<rparr>,
                simulations = [100]\<rparr>"]
  by simp

text \<open>
  The claim as stated fails above \<open>max\<close>. With \<open>min = 0\<close>, \<open>max = 50\<close> and the single
  simulation \<open>60\<close>, which lies above \<open>max\<close>, no simulation lies in \<open>[min, max]\<close>, yet the
  counts sum to \<open>1\<close>; with \<open>min = max = 100\<close> and the single simulation \<open>101\<close>, bin 49
  has count \<open>1\<close>.
\<close>

theorem create_histogram_above_max_counterexample:
  "sum_list (map bin_count (createHistogram
     \<lparr>mc_var_95 = 0, mc_cvar_95 = 0, num_simulations = 1, confidence_level = 19 / 20,
      distribution = \<lparr>d_mean = 60, d_std = 0, d_min = 0, d_max = 50\<rparr>,
      simulations = [60]\<rparr>)) = 1
   \<and> d_max (distribution
     \<lparr>mc_var_95 = 0, mc_cvar_95 = 0, num_simulations = 1, confidence_level = 19 / 20,
      distribution = \<lparr>d_mean = 60, d_std = 0, d_min = 0, d_max = 50\<rparr>,
      simulations = [60]\<rparr>) < 60
   \<and> bin_count (createHistogram
     \<lparr>mc_var_95 = 0, mc_cvar_95 = 0, num_simulations = 1, confidence_level = 19 / 20,
      distribution = \<lparr>d_mean = 101, d_std = 0, d_min = 100, d_max = 100\<rparr>,
      simulations = [101]\<rparr> ! 49) = 1"
  by code_simp

section \<open>Positions accepted by the form and the import\<close>

lemma rowPosition_Some:
  "rowPosition mapping row = Some p \<Longrightarrow> ticker p \<noteq> [] \<and> quantity p \<noteq> NaN \<and> asset_class p = Equity"
  by (auto simp: rowPosition_def Let_def split: option.splits if_splits)

lemma handleConfirm_Inr:
  assumes "handleConfirm mapping rows = Inr ps"
  shows "ps \<noteq> [] \<and> (\<forall>p \<in> set ps. ticker p \<noteq> [] \<and> quantity p \<noteq> NaN \<and> asset_class p = Equity)"
proof -
  from assms have ps: "ps = List.map_filter (rowPosition mapping) rows" and ne: "ps \<noteq> []"
    by (auto simp: handleConfirm_def Let_def split: if_splits)
  have "\<forall>p \<in> set ps. \<exists>row. rowPosition mapping row = Some p"
    unfolding ps by (auto simp: map_filter_def)
  then show ?thesis using ne rowPosition_Some by blast
qed

lemma js_assign_member: "Some v \<in> set (js_assign xs i v)"
  by (auto simp: js_assign_def set_update_memI)

lemma handleAddPosition_Some:
  assumes "handleAddPosition st positions = Some (arr, st')"
  shows "ticker_text st \<noteq> [] \<and> quantity_text st \<noteq> [] \<and> isValid st \<noteq> Some False
         \<and> Some (newPosition st) \<in> set arr"
  using assms
  by (auto simp: handleAddPosition_def js_assign_member split: if_splits option.splits)

lemma analyzeBody_id: "positions \<noteq> [] \<Longrightarrow> analyzeBody positions = Some positions"
  by (simp add: analyzeBody_def map_idI)

text \<open>
  C5, as the code has it. A position accepted through the form comes from a non-empty
  ticker text and a non-empty quantity text, with a ticker not marked invalid, and its
  quantity is \<open>parseFloat\<close> of the quantity text, whatever its sign. A position
  produced by the CSV import has a non-empty ticker, a quantity that is not \<open>NaN\<close> and
  asset class Equity; an accepted import is not empty. Neither path compares the
  quantity with \<open>0\<close>.
\<close>

theorem accepted_position_quantity_parsed:
  "(handleAddPosition st positions = Some (arr, st') \<longrightarrow>
      ticker_text st \<noteq> [] \<and> quantity_text st \<noteq> [] \<and> isValid st \<noteq> Some False
      \<and> Some (newPosition st) \<in> set arr
      \<and> quantity (newPosition st) = parseFloat (quantity_text st))
   \<and> (handleConfirm mapping rows = Inr ps \<longrightarrow>
        ps \<noteq> []
        \<and> (\<forall>p \<in> set ps. ticker p \<noteq> [] \<and> quantity p \<noteq> NaN \<and> asset_class p = Equity))"
proof (rule conjI)
  show "handleAddPosition st positions = Some (arr, st') \<longrightarrow>
          ticker_text st \<noteq> [] \<and> quantity_text st \<noteq> [] \<and> isValid st \<noteq> Some False
          \<and> Some (newPosition st) \<in> set arr
          \<and> quantity (newPosition st) = parseFloat (quantity_text st)"
  proof
    assume a: "handleAddPosition st positions = Some (arr, st')"
    from handleAddPosition_Some [OF a]
    show "ticker_text st \<noteq> [] \<and> quantity_text st \<noteq> [] \<and> isValid st \<noteq> Some False
          \<and> Some (newPosition st) \<in> set arr
          \<and> quantity (newPosition st) = parseFloat (quantity_text st)"
      by (simp add: newPosition_def)
  qed
next
  show "handleConfirm mapping rows = Inr ps \<longrightarrow>
          ps \<noteq> []
          \<and> (\<forall>p \<in> set ps. ticker p \<noteq> [] \<and> quantity p \<noteq> NaN \<and> asset_class p = Equity)"
    using handleConfirm_Inr by blast
qed

theorem accepted_position_quantity_parsed_witness:
  "quantity (newPosition
     \<lparr>ticker_text = ''msft'', quantity_text = ''12.5'', assetClass = Equity, avgPrice = [],
      purchaseDate = [], isValid = Some True, editingIndex = None\<rparr>) = Fin (25 / 2)
   \<and> handleConfirm \<lparr>map_ticker = ''Ticker'', map_quantity = ''Quantity'', map_type = ''Equity''\<rparr>
        [[''Ticker'' \<mapsto> ''msft'', ''Quantity'' \<mapsto> ''50''],
         [''Ticker'' \<mapsto> ''bnd'', ''Quantity'' \<mapsto> ''n/a'']]
      = Inr [\<lparr>ticker = ''MSFT'', quantity = Fin 50, asset_class = Equity,
               avg_price = None, purchase_date = None\<rparr>]
   \<and> quantity \<lparr>ticker = ''MSFT'', quantity = Fin 50, asset_class = Equity,
               avg_price = None, purchase_date = None\<rparr> \<noteq> NaN"
proof -
  let ?st = "\<lparr>ticker_text = ''msft'', quantity_text = ''12.5'', assetClass = Equity,
              avgPrice = [], purchaseDate = [], isValid = Some True, editingIndex = None\<rparr>"
  let ?m = "\<lparr>map_ticker = ''Ticker'', map_quantity = ''Quantity'', map_type = ''Equity''\<rparr>"
  let ?rows = "[[''Ticker'' \<mapsto> ''msft'', ''Quantity'' \<mapsto> ''50''],
                [''Ticker'' \<mapsto> ''bnd'', ''Quantity'' \<mapsto> ''n/a'']]"
  let ?p = "\<lparr>ticker = ''MSFT'', quantity = Fin 50, asset_class = Equity,
             avg_price = None, purchase_date = None\<rparr>"
  have add: "handleAddPosition ?st []
               = Some ([Some \<lparr>ticker = ''MSFT'', quantity = Fin (25 / 2), asset_class = Equity,
                               avg_price = None, purchase_date = None\<rparr>],
                       \<lparr>ticker_text = [], quantity_text = [], assetClass = Equity,
                        avgPrice = [], purchaseDate = [], isValid = None,
                        editingIndex = None\<rparr>)"
    by code_simp
  have pf: "parseFloat ''12.5'' = Fin (25 / 2)" by code_simp
  have imp: "handleConfirm ?m ?rows = Inr [?p]" by code_simp
  from accepted_position_quantity_parsed [of ?st "[]" _ _ ?m ?rows "[?p]"] add pf imp
  show ?thesis by simp
qed

text \<open>
  The claim as stated fails on both paths: the form accepts the quantity text \<open>0\<close> and
  the import accepts the cell \<open>-5\<close>; the positions built have quantity \<open>0\<close> and \<open>-5\<close>.
\<close>

theorem nonpositive_quantity_accepted_counterexample:
  "map_option fst (handleAddPosition
     \<lparr>ticker_text = ''AAPL'', quantity_text = ''0'', assetClass = Equity, avgPrice = [],
      purchaseDate = [], isValid = Some True, editingIndex = None\<rparr> [])
   = Some [Some \<lparr>ticker = ''AAPL'', quantity = Fin 0, asset_class = Equity,
                  avg_price = None, purchase_date = None\<rparr>]
   \<and> handleConfirm \<lparr>map_ticker = ''Ticker'', map_quantity = ''Quantity'', map_type = ''Equity''\<rparr>
        [[''Ticker'' \<mapsto> ''aapl'', ''Quantity'' \<mapsto> ''-5'']]
      = Inr [\<lparr>ticker = ''AAPL'', quantity = Fin (- 5), asset_class = Equity,
               avg_price = None, purchase_date = None\<rparr>]"
  by code_simp

section \<open>Duplicate tickers\<close>

text \<open>
  C6, as the code has it. No handler compares tickers. Adding a position (not editing
  one) appends it to the list, importing appends the imported positions, and the
  analysis request carries the list as it is; so the tickers submitted are pairwise
  distinct exactly when those already listed and those appended are distinct and
  disjoint.
\<close>

theorem add_and_import_append:
  "(ticker_text st \<noteq> [] \<and> quantity_text st \<noteq> [] \<and> isValid st \<noteq> Some False
      \<and> editingIndex st = None \<longrightarrow>
      map_option fst (handleAddPosition st positions)
        = Some (map Some (positions @ [newPosition st])))
   \<and> handleImport prev imported = prev @ imported
   \<and> (positions \<noteq> [] \<longrightarrow> analyzeBody positions = Some positions)
   \<and> (distinct (map ticker (positions @ [newPosition st]))
        \<longleftrightarrow> distinct (map ticker positions)
            \<and> toUpperCase (ticker_text st) \<notin> set (map ticker positions))
   \<and> (distinct (map ticker (handleImport prev imported))
        \<longleftrightarrow> distinct (map ticker prev) \<and> distinct (map ticker imported)
            \<and> set (map ticker prev) \<inter> set (map ticker imported) = {})"
proof (intro conjI impI)
  assume "ticker_text st \<noteq> [] \<and> quantity_text st \<noteq> [] \<and> isValid st \<noteq> Some False
          \<and> editingIndex st = None"
  then show "map_option fst (handleAddPosition st positions)
               = Some (map Some (positions @ [newPosition st]))"
    by (simp add: handleAddPosition_def)
next
  show "handleImport prev imported = prev @ imported" by (simp add: handleImport_def)
next
  assume "positions \<noteq> []"
  then show "analyzeBody positions = Some positions" by (rule analyzeBody_id)
next
  show "distinct (map ticker (positions @ [newPosition st]))
          \<longleftrightarrow> distinct (map ticker positions)
              \<and> toUpperCase (ticker_text st) \<notin> set (map ticker positions)"
    by (auto simp: newPosition_def)
next
  show "distinct (map ticker (handleImport prev imported))
          \<longleftrightarrow> distinct (map ticker prev) \<and> distinct (map ticker imported)
              \<and> set (map ticker prev) \<inter> set (map ticker imported) = {}"
    by (simp add: handleImport_def)
qed

theorem add_and_import_append_witness:
  "map_option fst (handleAddPosition
     \<lparr>ticker_text = ''msft'', quantity_text = ''50'', assetClass = Equity, avgPrice = [],
      purchaseDate = [], isValid = None, editingIndex = None\<rparr>
     [\<lparr>ticker = ''AAPL'', quantity = Fin 100, asset_class = Equity,
        avg_price = None, purchase_date = None\<rparr>])
   = Some [Some \<lparr>ticker = ''AAPL'', quantity = Fin 100, asset_class = Equity,
                  avg_price = None, purchase_date = None\<rparr>,
           Some \<lparr>ticker = ''MSFT'', quantity = Fin 50, asset_class = Equity,
                  avg_price = None, purchase_date = None\<rparr>]
   \<and> analyzeBody
        [\<lparr>ticker = ''AAPL'', quantity = Fin 100, asset_class = Equity,
           avg_price = None, purchase_date = None\<rparr>]
      = Some [\<lparr>ticker = ''AAPL'', quantity = Fin 100, asset_class = Equity,
                avg_price = None, purchase_date = None\<rparr>]"
proof -
  let ?st = "\<lparr>ticker_text = ''msft'', quantity_text = ''50'', assetClass = Equity,
              avgPrice = [], purchaseDate = [], isValid = None, editingIndex = None\<rparr>"
  let ?a = "\<lparr>ticker = ''AAPL'', quantity = Fin 100, asset_class = Equity,
             avg_price = None, purchase_date = None\<rparr>"
  have np: "newPosition ?st = \<lparr>ticker = ''MSFT'', quantity = Fin 50, asset_class = Equity,
                                avg_price = None, purchase_date = None\<rparr>"
    by code_simp
  from add_and_import_append [of ?st "[?a]"] np show ?thesis by simp
qed

text \<open>
  The claim as stated fails: with AAPL in the list, adding \<open>aapl\<close> through the form
  gives a list with two AAPL positions, and so does importing an AAPL row; the analysis
  request then carries both.
\<close>

theorem duplicate_ticker_formed_counterexample:
  "map_option fst (handleAddPosition
     \<lparr>ticker_text = ''aapl'', quantity_text = ''10'', assetClass = Equity, avgPrice = [],
      purchaseDate = [], isValid = Some True, editingIndex = None\<rparr>
     [\<lparr>ticker = ''AAPL'', quantity = Fin 100, asset_class = Equity,
        avg_price = None, purchase_date = None\<rparr>])
   = Some [Some \<lparr>ticker = ''AAPL'', quantity = Fin 100, asset_class = Equity,
                  avg_price = None, purchase_date = None\<rparr>,
           Some \<lparr>ticker = ''AAPL'', quantity = Fin 10, asset_class = Equity,
                  avg_price = None, purchase_date = None\<rparr>]
   \<and> analyzeBody (handleImport
        [\<lparr>ticker = ''AAPL'', quantity = Fin 100, asset_class = Equity,
           avg_price = None, purchase_date = None\<rparr>]
        [\<lparr>ticker = ''AAPL'', quantity = Fin 5, asset_class = Equity,
           avg_price = None, purchase_date = None\<rparr>])
      = Some [\<lparr>ticker = ''AAPL'', quantity = Fin 100, asset_class = Equity,
                avg_price = None, purchase_date = None\<rparr>,
              \<lparr>ticker = ''AAPL'', quantity = Fin 5, asset_class = Equity,
                avg_price = None, purchase_date = None\<rparr>]
   \<and> \<not> distinct (map ticker (handleImport
        [\<lparr>ticker = ''AAPL'', quantity = Fin 100, asset_class = Equity,
           avg_price = None, purchase_date = None\<rparr>]
        [\<lparr>ticker = ''AAPL'', quantity = Fin 5, asset_class = Equity,
           avg_price = None, purchase_date = None\<rparr>]))"
  by code_simp

section \<open>Scenario impact\<close>

text \<open>
  C1. For a scenario with shock \<open>market_shock_pct\<close> tested on the value \<open>V\<close>, the
  impact has \<open>projected_value = V * (1 + market_shock_pct)\<close>,
  \<open>projected_loss = V - projected_value\<close> and \<open>loss_pct = market_shock_pct\<close>; and the
  figure that the component shows before the percent sign, the two-decimal form of
  \<open>loss_pct / 100 * 100\<close>, is the two-decimal form of \<open>market_shock_pct\<close>.
\<close>

theorem scenario_impact_equations:
  "projected_value (testScenario sc v) = v * (1 + sc_market_shock_pct sc)
   \<and> projected_loss (testScenario sc v) = v - projected_value (testScenario sc v)
   \<and> loss_pct (testScenario sc v) = sc_market_shock_pct sc
   \<and> market_shock_pct (testScenario sc v) = sc_market_shock_pct sc
   \<and> original_value (testScenario sc v) = v
   \<and> decline_shown (impactNumbers (testScenario sc v)) = toFixed2 (sc_market_shock_pct sc)"
  by (simp add: testScenario_def impactNumbers_def formatPercent_def)

section \<open>Ranking of risk contributions\<close>

lemma sort_key_neg_descending:
  "sorted_wrt (\<lambda>a b. f a \<ge> f b) (sort_key (\<lambda>p. - f p) (xs :: 'a list))"
  for f :: "'a \<Rightarrow> rat"
proof -
  have "sorted (map (\<lambda>p. - f p) (sort_key (\<lambda>p. - f p) xs))" by (rule sorted_sort_key)
  then show ?thesis by (simp add: sorted_wrt_map)
qed

text \<open>
  C3. The ranking is a function of the positions alone. The ranked list is a
  permutation of the input positions, in non-increasing order of
  \<open>risk_contribution_pct\<close>, positions with the same contribution keeping their input
  order; the risk chart displays it entry by entry (ticker and contribution), and the
  \<open>top_drivers\<close> are its first \<open>k\<close> entries, \<open>k\<close> of them when there are that many
  positions.
\<close>

theorem risk_ranking_sorted_permutation:
  "mset (sortedByRisk positions) = mset positions
   \<and> sorted_wrt (\<lambda>a b. risk_contribution_pct a \<ge> risk_contribution_pct b)
        (sortedByRisk positions)
   \<and> filter (\<lambda>p. risk_contribution_pct p = c) (sortedByRisk positions)
       = filter (\<lambda>p. risk_contribution_pct p = c) positions
   \<and> riskData positions
       = map (\<lambda>p. (pos_ticker p, risk_contribution_pct p)) (sortedByRisk positions)
   \<and> sorted_wrt (\<lambda>a b. snd a \<ge> snd b) (riskData positions)
   \<and> map (\<lambda>d. (name d, contribution_pct d)) (top_drivers k positions)
       = take k (riskData positions)
   \<and> length (top_drivers k positions) = min k (length positions)"
proof (intro conjI)
  show "mset (sortedByRisk positions) = mset positions"
    by (simp add: sortedByRisk_def)
next
  show "sorted_wrt (\<lambda>a b. risk_contribution_pct a \<ge> risk_contribution_pct b)
          (sortedByRisk positions)"
    unfolding sortedByRisk_def by (rule sort_key_neg_descending)
next
  have "filter (\<lambda>p. - risk_contribution_pct p = - c)
          (sort_key (\<lambda>p. - risk_contribution_pct p) positions)
        = filter (\<lambda>p. - risk_contribution_pct p = - c) positions"
    by (rule sort_key_stable)
  then show "filter (\<lambda>p. risk_contribution_pct p = c) (sortedByRisk positions)
               = filter (\<lambda>p. risk_contribution_pct p = c) positions"
    by (simp add: sortedByRisk_def)
next
  show "riskData positions
          = map (\<lambda>p. (pos_ticker p, risk_contribution_pct p)) (sortedByRisk positions)"
    by (simp add: riskData_def)
next
  show "sorted_wrt (\<lambda>a b. snd a \<ge> snd b) (riskData positions)"
    using sort_key_neg_descending [of risk_contribution_pct positions]
    by (simp add: riskData_def sortedByRisk_def sorted_wrt_map)
next
  show "map (\<lambda>d. (name d, contribution_pct d)) (top_drivers k positions)
          = take k (riskData positions)"
    by (simp add: top_drivers_def riskData_def sortedByRisk_def take_map comp_def)
next
  show "length (top_drivers k positions) = min k (length positions)"
    by (simp add: top_drivers_def min.commute)
qed

section \<open>A null ratio at the consumers of the performance metrics\<close>












end
